theory Spec2Isabelle
  imports Complex_Main "HOL-Library.Multiset" "HOL-Library.Product_Lexorder"
begin

section \<open>Live Sports Auction API: data model\<close>

text \<open>
  The embedding follows \<^verbatim>\<open>src/main.py\<close> and \<^verbatim>\<open>src/schemas.py\<close>.

  \<^item> A \<^verbatim>\<open>datetime\<close> is a point on the time line; the code only compares datetimes, so a
    timezone-aware datetime is its number of microseconds since the epoch, an \<open>int\<close>.
  \<^item> A price is a Python \<^verbatim>\<open>float\<close>. The endpoints never compute with prices, they copy
    and compare them, so a finite float is the rational number it denotes; beside the
    finite floats there are the two infinities and \<^verbatim>\<open>nan\<close>, all of which a request may
    carry, since the float fields of the requests are unconstrained.
  \<^item> An \<^verbatim>\<open>ObjectId\<close> is the lower-case form of its 24 hexadecimal characters.
  \<^item> The clock (\<^verbatim>\<open>datetime.now\<close>) and the identifier the store assigns to an inserted
    document are inputs of the operation that uses them.
\<close>

type_synonym time = int
type_synonym oid = string

datatype pyfloat = Finite rat | PosInf | NegInf | NaN

text \<open>
  Python's \<^verbatim>\<open><=\<close> and \<^verbatim>\<open><\<close> on floats: every comparison with \<^verbatim>\<open>nan\<close> is false.
\<close>

fun py_le :: "pyfloat \<Rightarrow> pyfloat \<Rightarrow> bool" where
  "py_le NaN y = False"
| "py_le x NaN = False"
| "py_le NegInf y = True"
| "py_le x PosInf = True"
| "py_le (Finite a) (Finite b) = (a \<le> b)"
| "py_le x y = False"

fun py_lt :: "pyfloat \<Rightarrow> pyfloat \<Rightarrow> bool" where
  "py_lt NaN y = False"
| "py_lt x NaN = False"
| "py_lt (Finite a) (Finite b) = (a < b)"
| "py_lt NegInf NegInf = False"
| "py_lt NegInf y = True"
| "py_lt PosInf y = False"
| "py_lt x PosInf = True"
| "py_lt x y = False"

text \<open>A value stored under a key of a document that holds a number or \<^verbatim>\<open>None\<close>.\<close>

datatype pyval = PyNone | PyFloat pyfloat

text \<open>
  What an endpoint raises: an \<^verbatim>\<open>HTTPException\<close> with its status code and detail, or an
  exception nobody catches (\<^verbatim>\<open>bson.errors.InvalidId\<close>, \<^verbatim>\<open>TypeError\<close>, pydantic's
  \<^verbatim>\<open>ValidationError\<close>), which the framework answers with status 500.
\<close>

datatype error = HTTPException nat string | InvalidId | TypeError | ValidationError

record CreateAuctionRequest =
  title :: string
  description :: "string option"
  image_url :: "string option"
  starting_price :: pyfloat
  start_time :: time
  end_time :: time
  tags :: "string list"

record PlaceBidRequest =
  bidder_name :: string
  amount :: pyfloat

text \<open>The document \<^verbatim>\<open>bid_doc\<close> that \<^verbatim>\<open>place_bid\<close> inserts.\<close>

record Bid =
  auction_id :: string
  bidder_name :: string
  amount :: pyfloat
  created_at :: time

text \<open>
  An auction document: the fields of \<^verbatim>\<open>schemas.Auction\<close> and \<^verbatim>\<open>updated_at\<close>, which
  \<^verbatim>\<open>place_bid\<close> sets. The two prices are read with \<^verbatim>\<open>dict.get\<close>, which tells a missing
  key (\<open>None\<close> here) from a key holding \<^verbatim>\<open>None\<close> (\<open>Some PyNone\<close>).
\<close>

record Auction =
  item_id :: "string option"
  title :: string
  description :: "string option"
  image_url :: "string option"
  starting_price :: "pyval option"
  current_price :: "pyval option"
  start_time :: time
  end_time :: time
  status :: string
  tags :: "string list"
  updated_at :: "time option"

text \<open>The two collections, each in insertion order, every document beside its \<^verbatim>\<open>_id\<close>.\<close>

record database =
  auction_coll :: "(oid \<times> Auction) list"
  bid_coll :: "(oid \<times> Bid) list"

section \<open>The document store and the bson library\<close>

definition is_hex_digit :: "char \<Rightarrow> bool" where
  "is_hex_digit c = (c \<in> set ''0123456789abcdefABCDEF'')"

definition hex_lower :: "char \<Rightarrow> char" where
  "hex_lower c =
     (if c = CHR ''A'' then CHR ''a'' else if c = CHR ''B'' then CHR ''b''
      else if c = CHR ''C'' then CHR ''c'' else if c = CHR ''D'' then CHR ''d''
      else if c = CHR ''E'' then CHR ''e'' else if c = CHR ''F'' then CHR ''f'' else c)"

text \<open>
  \<^verbatim>\<open>bson.ObjectId(s)\<close> for a string: 24 hexadecimal characters give an identifier, anything
  else raises \<^verbatim>\<open>InvalidId\<close>.
\<close>

definition ObjectId :: "string \<Rightarrow> error + oid" where
  "ObjectId s =
     (if length s = 24 \<and> list_all is_hex_digit s then Inr (map hex_lower s) else Inl InvalidId)"

text \<open>\<^verbatim>\<open>find_one({"_id": k})\<close>: the first document with that identifier.\<close>

fun find_one :: "(oid \<times> 'd) list \<Rightarrow> oid \<Rightarrow> 'd option" where
  "find_one [] k = None"
| "find_one ((i, d) # rest) k = (if i = k then Some d else find_one rest k)"

text \<open>\<^verbatim>\<open>update_one({"_id": k}, {"$set": ...})\<close>: the first document with that identifier is changed.\<close>

fun update_one :: "(oid \<times> 'd) list \<Rightarrow> oid \<Rightarrow> ('d \<Rightarrow> 'd) \<Rightarrow> (oid \<times> 'd) list" where
  "update_one [] k f = []"
| "update_one ((i, d) # rest) k f =
     (if i = k then (i, f d) # rest else (i, d) # update_one rest k f)"

text \<open>\<^verbatim>\<open>insert_one(d)\<close> with the identifier \<open>new_id\<close> the store assigns.\<close>

definition insert_one :: "(oid \<times> 'd) list \<Rightarrow> oid \<Rightarrow> 'd \<Rightarrow> (oid \<times> 'd) list" where
  "insert_one coll new_id d = coll @ [(new_id, d)]"

text \<open>
  Modelled from the spec: \<^verbatim>\<open>get_documents\<close> of the module \<^verbatim>\<open>database\<close>, which is not among
  the sources. The spec's \<^verbatim>\<open>list(filter: {status?}, limit)\<close> returns up to \<open>limit\<close> records
  matching the filter, the empty filter matching all. The filter dictionary of
  \<^verbatim>\<open>list_auctions\<close> is empty (\<open>None\<close>) or \<^verbatim>\<open>{"status": s}\<close> (\<open>Some s\<close>).
\<close>

definition get_documents ::
  "(oid \<times> Auction) list \<Rightarrow> string option \<Rightarrow> nat \<Rightarrow> (oid \<times> Auction) list" where
  "get_documents coll filter_dict limit =
     take limit
       (filter (\<lambda>(i, a). case filter_dict of None \<Rightarrow> True | Some s \<Rightarrow> status a = s) coll)"

text \<open>
  Modelled from the spec: \<^verbatim>\<open>create_document\<close> of the module \<^verbatim>\<open>database\<close>, which is not
  among the sources. The spec's \<^verbatim>\<open>create(record) -> id\<close> inserts the record with the
  caller's fields and returns the identifier the store assigned.
\<close>

definition create_document ::
  "(oid \<times> Auction) list \<Rightarrow> oid \<Rightarrow> Auction \<Rightarrow> (oid \<times> Auction) list \<times> oid" where
  "create_document coll new_id data = (insert_one coll new_id data, new_id)"

section \<open>The endpoints\<close>

subsection \<open>\<^verbatim>\<open>GET /auctions\<close>\<close>

text \<open>An element of the answer: the document with the keys the loop adds.\<close>

record ListedAuction =
  doc :: Auction
  doc_id :: oid
  is_live :: bool
  has_ended :: bool

text \<open>
  The loop of \<^verbatim>\<open>list_auctions\<close>. It reads the clock in its body, once for each document:
  \<open>clock k\<close> is what the \<open>k\<close>-th call of \<^verbatim>\<open>datetime.now\<close> of the request returns.
\<close>

fun list_loop :: "(nat \<Rightarrow> time) \<Rightarrow> nat \<Rightarrow> (oid \<times> Auction) list \<Rightarrow> ListedAuction list" where
  "list_loop clock k [] = []"
| "list_loop clock k ((i, a) # rest) =
     (let now = clock k
      in \<lparr>doc = a, doc_id = i,
          is_live = (Auction.start_time a \<le> now \<and> now \<le> Auction.end_time a),
          has_ended = (now > Auction.end_time a)\<rparr>
         # list_loop clock (Suc k) rest)"

text \<open>
  \<^verbatim>\<open>if status:\<close> holds for a string that is given and not empty.
\<close>

definition list_auctions ::
  "(nat \<Rightarrow> time) \<Rightarrow> string option \<Rightarrow> nat \<Rightarrow> database \<Rightarrow> ListedAuction list" where
  "list_auctions clock status_arg limit db =
     (let filter_dict = (case status_arg of None \<Rightarrow> None
                         | Some s \<Rightarrow> if s \<noteq> [] then Some s else None);
          auctions = get_documents (auction_coll db) filter_dict limit
      in list_loop clock 0 auctions)"

subsection \<open>\<^verbatim>\<open>POST /auctions\<close>\<close>

text \<open>The status \<^verbatim>\<open>create_auction\<close> computes from the window and its reading of the clock.\<close>

definition initial_status :: "time \<Rightarrow> time \<Rightarrow> time \<Rightarrow> string" where
  "initial_status now start_t end_t =
     (if start_t \<le> now \<and> now \<le> end_t then ''live''
      else if now > end_t then ''ended''
      else ''scheduled'')"

text \<open>
  \<^verbatim>\<open>create_auction\<close>. Building the \<^verbatim>\<open>schemas.Auction\<close> validates its fields: the two
  prices, both the request's \<^verbatim>\<open>starting_price\<close>, are declared \<^verbatim>\<open>ge=0\<close>.
\<close>

definition create_auction ::
  "time \<Rightarrow> oid \<Rightarrow> CreateAuctionRequest \<Rightarrow> database \<Rightarrow> (error + oid) \<times> database" where
  "create_auction now new_id payload db =
     (let status_v = initial_status now (CreateAuctionRequest.start_time payload)
                       (CreateAuctionRequest.end_time payload)
      in if \<not> py_le (Finite 0) (CreateAuctionRequest.starting_price payload)
         then (Inl ValidationError, db)
         else
           (let data = \<lparr>item_id = None,
                        title = CreateAuctionRequest.title payload,
                        description = CreateAuctionRequest.description payload,
                        image_url = CreateAuctionRequest.image_url payload,
                        starting_price =
                          Some (PyFloat (CreateAuctionRequest.starting_price payload)),
                        current_price =
                          Some (PyFloat (CreateAuctionRequest.starting_price payload)),
                        start_time = CreateAuctionRequest.start_time payload,
                        end_time = CreateAuctionRequest.end_time payload,
                        status = status_v,
                        tags = CreateAuctionRequest.tags payload,
                        updated_at = None\<rparr>;
                (coll, inserted_id) = create_document (auction_coll db) new_id data
            in (Inr inserted_id, db\<lparr>auction_coll := coll\<rparr>)))"

subsection \<open>\<^verbatim>\<open>GET /auctions/{auction_id}\<close>\<close>

record AuctionDetail =
  detail_doc :: Auction
  detail_id :: oid
  top_bids :: "(oid \<times> Bid) list"

text \<open>
  \<^verbatim>\<open>db["bid"].find({"auction_id": auction_id}).sort("amount", -1).limit(10)\<close>. The sort is
  the store's: \<open>sort_desc\<close> stands for it, and the request names no second sort key.
\<close>

definition get_auction ::
  "((oid \<times> Bid) list \<Rightarrow> (oid \<times> Bid) list) \<Rightarrow> string \<Rightarrow> database \<Rightarrow> error + AuctionDetail" where
  "get_auction sort_desc auction_id_arg db =
     (case ObjectId auction_id_arg of
        Inl e \<Rightarrow> Inl (HTTPException 400 ''Invalid auction id'')
      | Inr k \<Rightarrow>
          (case find_one (auction_coll db) k of
             None \<Rightarrow> Inl (HTTPException 404 ''Auction not found'')
           | Some d \<Rightarrow>
               Inr \<lparr>detail_doc = d, detail_id = k,
                    top_bids =
                      take 10 (sort_desc
                        (filter (\<lambda>(i, b). auction_id b = auction_id_arg) (bid_coll db)))\<rparr>))"

subsection \<open>\<^verbatim>\<open>POST /auctions/{auction_id}/bids\<close>\<close>

text \<open>\<^verbatim>\<open>d.get(key, default)\<close> on the value stored under the key, if any.\<close>

definition dict_get :: "pyval option \<Rightarrow> pyval \<Rightarrow> pyval" where
  "dict_get stored default_v = (case stored of None \<Rightarrow> default_v | Some v \<Rightarrow> v)"

text \<open>\<^verbatim>\<open>float(v)\<close>: the number itself, and a \<^verbatim>\<open>TypeError\<close> on \<^verbatim>\<open>None\<close>.\<close>

definition float_of :: "pyval \<Rightarrow> error + pyfloat" where
  "float_of v = (case v of PyNone \<Rightarrow> Inl TypeError | PyFloat x \<Rightarrow> Inr x)"

text \<open>
  The first half of \<^verbatim>\<open>place_bid\<close>, which only reads: the auction is fetched, the window
  and the amount are checked. It returns the identifier of the auction.
\<close>

definition check_bid :: "time \<Rightarrow> string \<Rightarrow> PlaceBidRequest \<Rightarrow> database \<Rightarrow> error + oid" where
  "check_bid now auction_id_arg payload db =
     (case ObjectId auction_id_arg of
        Inl e \<Rightarrow> Inl e
      | Inr k \<Rightarrow>
          (case find_one (auction_coll db) k of
             None \<Rightarrow> Inl (HTTPException 404 ''Auction not found'')
           | Some auction \<Rightarrow>
               if \<not> (Auction.start_time auction \<le> now \<and> now \<le> Auction.end_time auction)
               then Inl (HTTPException 400 ''Auction is not live'')
               else
                 (case float_of (dict_get (current_price auction)
                                   (dict_get (Auction.starting_price auction) (PyFloat (Finite 0)))) of
                    Inl e \<Rightarrow> Inl e
                  | Inr current \<Rightarrow>
                      if py_le (PlaceBidRequest.amount payload) current
                      then Inl (HTTPException 400 ''Bid must be higher than current price'')
                      else Inr k)))"

text \<open>
  The second half, which writes: the bid document is inserted, then the auction's
  \<^verbatim>\<open>current_price\<close> and \<^verbatim>\<open>updated_at\<close> are set, whatever the auction holds by then.
\<close>

definition commit_bid ::
  "time \<Rightarrow> oid \<Rightarrow> string \<Rightarrow> oid \<Rightarrow> PlaceBidRequest \<Rightarrow> database \<Rightarrow> database" where
  "commit_bid now new_id auction_id_arg k payload db =
     (let bid_doc = \<lparr>auction_id = auction_id_arg,
                     bidder_name = PlaceBidRequest.bidder_name payload,
                     amount = PlaceBidRequest.amount payload,
                     created_at = now\<rparr>;
          db1 = db\<lparr>bid_coll := insert_one (bid_coll db) new_id bid_doc\<rparr>
      in db1\<lparr>auction_coll :=
               update_one (auction_coll db1) k
                 (\<lambda>a. a\<lparr>current_price := Some (PyFloat (PlaceBidRequest.amount payload)),
                        updated_at := Some now\<rparr>)\<rparr>)"

text \<open>
  \<^verbatim>\<open>place_bid\<close>: the answer is the pair of the keys \<^verbatim>\<open>id\<close> and \<^verbatim>\<open>current_price\<close>.
\<close>

definition place_bid ::
  "time \<Rightarrow> oid \<Rightarrow> string \<Rightarrow> PlaceBidRequest \<Rightarrow> database
     \<Rightarrow> (error + oid \<times> pyfloat) \<times> database" where
  "place_bid now new_id auction_id_arg payload db =
     (case check_bid now auction_id_arg payload db of
        Inl e \<Rightarrow> (Inl e, db)
      | Inr k \<Rightarrow>
          (Inr (new_id, PlaceBidRequest.amount payload),
           commit_bid now new_id auction_id_arg k payload db))"

section \<open>Sequences of requests\<close>

text \<open>
  The two endpoints that write. \<^verbatim>\<open>list_auctions\<close> and \<^verbatim>\<open>get_auction\<close> change only the
  copies of the documents they return, never the store.
\<close>

datatype request =
    CreateAuction time oid CreateAuctionRequest
  | PlaceBid time oid string PlaceBidRequest

fun handle :: "request \<Rightarrow> database \<Rightarrow> database" where
  "handle (CreateAuction now new_id payload) db = snd (create_auction now new_id payload db)"
| "handle (PlaceBid now new_id auction_id_arg payload) db =
     snd (place_bid now new_id auction_id_arg payload db)"

text \<open>Requests handled one after the other, each running to its end before the next starts.\<close>

fun serve :: "request list \<Rightarrow> database \<Rightarrow> database" where
  "serve [] db = db"
| "serve (r # rs) db = serve rs (handle r db)"

text \<open>A request that, if it is a bid on the auction \<open>k\<close>, carries an amount other than \<^verbatim>\<open>nan\<close>.\<close>

fun bid_is_number_for :: "oid \<Rightarrow> request \<Rightarrow> bool" where
  "bid_is_number_for k (CreateAuction now new_id payload) = True"
| "bid_is_number_for k (PlaceBid now new_id auction_id_arg payload) =
     (ObjectId auction_id_arg \<noteq> Inr k \<or> PlaceBidRequest.amount payload \<noteq> NaN)"

text \<open>The float stored as \<^verbatim>\<open>current_price\<close> of the auction \<open>k\<close>, if there is one.\<close>

definition stored_price :: "database \<Rightarrow> oid \<Rightarrow> pyfloat option" where
  "stored_price db k =
     (case find_one (auction_coll db) k of
        None \<Rightarrow> None
      | Some a \<Rightarrow> (case current_price a of Some (PyFloat c) \<Rightarrow> Some c | _ \<Rightarrow> None))"

text \<open>
  The price \<^verbatim>\<open>place_bid\<close> reads for the auction \<open>k\<close> (line 121), if the auction is stored
  and the reading does not raise.
\<close>

definition price_read :: "database \<Rightarrow> oid \<Rightarrow> pyfloat option" where
  "price_read db k =
     (case find_one (auction_coll db) k of
        None \<Rightarrow> None
      | Some auction \<Rightarrow>
          (case float_of (dict_get (current_price auction)
                            (dict_get (Auction.starting_price auction) (PyFloat (Finite 0)))) of
             Inl e \<Rightarrow> None
           | Inr current \<Rightarrow> Some current))"

text \<open>
  Bids on one auction handled one after the other, each request running to its end before
  the next starts. The result lists the amounts of the accepted bids, in order.
\<close>

fun run_bids ::
  "(time \<times> oid \<times> PlaceBidRequest) list \<Rightarrow> string \<Rightarrow> database \<Rightarrow> pyfloat list \<times> database" where
  "run_bids [] auction_id_arg db = ([], db)"
| "run_bids ((now, new_id, payload) # rest) auction_id_arg db =
     (case place_bid now new_id auction_id_arg payload db of
        (Inl e, db') \<Rightarrow> run_bids rest auction_id_arg db'
      | (Inr (i, x), db') \<Rightarrow>
          (case run_bids rest auction_id_arg db' of (accepted, db'') \<Rightarrow> (x # accepted, db'')))"

fun amount_is_number :: "time \<times> oid \<times> PlaceBidRequest \<Rightarrow> bool" where
  "amount_is_number (now, new_id, payload) = (PlaceBidRequest.amount payload \<noteq> NaN)"

section \<open>The store's sort\<close>

text \<open>
  The store's order of doubles, which is total: \<^verbatim>\<open>nan\<close> below every number, then the
  negative infinity, the finite numbers and the positive infinity. On numbers it is the
  numeric order.
\<close>

fun bson_rank :: "pyfloat \<Rightarrow> nat \<times> rat" where
  "bson_rank NaN = (0, 0)"
| "bson_rank NegInf = (1, 0)"
| "bson_rank (Finite r) = (2, r)"
| "bson_rank PosInf = (3, 0)"


text \<open>
  Two sorts that answer the request: one keeps documents of equal amount in insertion
  order, the other returns them latest first.
\<close>

definition earliest_first :: "(oid \<times> Bid) list \<Rightarrow> (oid \<times> Bid) list" where
  "earliest_first xs = rev (sort_key (\<lambda>x. bson_rank (Bid.amount (snd x))) (rev xs))"


section \<open>Example data\<close>

definition example_id :: string where
  "example_id = ''65a1b2c3d4e5f60718293a4b''"

definition example_auction :: Auction where
  "example_auction =
     \<lparr>item_id = None, title = ''Signed Jersey'', description = None, image_url = None,
      starting_price = Some (PyFloat (Finite 100)), current_price = Some (PyFloat (Finite 100)),
      start_time = 0, end_time = 1000, status = ''scheduled'', tags = [],
      updated_at = None\<rparr>"

definition example_db :: database where
  "example_db = \<lparr>auction_coll = [(example_id, example_auction)], bid_coll = []\<rparr>"

definition bid_of :: "string \<Rightarrow> rat \<Rightarrow> PlaceBidRequest" where
  "bid_of who x = \<lparr>PlaceBidRequest.bidder_name = who, PlaceBidRequest.amount = Finite x\<rparr>"

text \<open>A bid whose amount is \<^verbatim>\<open>nan\<close>, as the body \<^verbatim>\<open>{"bidder_name": "N", "amount": NaN}\<close> gives.\<close>

definition nan_bid :: PlaceBidRequest where
  "nan_bid = \<lparr>PlaceBidRequest.bidder_name = ''N'', PlaceBidRequest.amount = NaN\<rparr>"

text \<open>
  An auction as \<^verbatim>\<open>schemas.Auction\<close> gives it when no \<^verbatim>\<open>current_price\<close> is passed: the key is
  there and holds \<^verbatim>\<open>None\<close>.
\<close>

definition example_null_auction :: Auction where
  "example_null_auction = example_auction\<lparr>current_price := Some PyNone\<rparr>"

definition example_null_db :: database where
  "example_null_db = \<lparr>auction_coll = [(example_id, example_null_auction)], bid_coll = []\<rparr>"

definition example_id2 :: string where
  "example_id2 = ''65a1b2c3d4e5f60718293a4c''"

definition example_db2 :: database where
  "example_db2 =
     \<lparr>auction_coll = [(example_id, example_auction), (example_id2, example_auction)],
      bid_coll = [(''b1'', \<lparr>auction_id = example_id, bidder_name = ''A'', amount = Finite 150,
                           created_at = 500\<rparr>),
                  (''b2'', \<lparr>auction_id = example_id, bidder_name = ''B'', amount = Finite 150,
                           created_at = 501\<rparr>)]\<rparr>"



section \<open>Lemmas about float comparison\<close>

lemma py_le_trans: "py_le a b \<Longrightarrow> py_le b c \<Longrightarrow> py_le a c"
  by (cases a; cases b; cases c) auto

lemma py_lt_trans: "py_lt a b \<Longrightarrow> py_lt b c \<Longrightarrow> py_lt a c"
  by (cases a; cases b; cases c) auto

lemma py_lt_imp_le: "py_lt a b \<Longrightarrow> py_le a b"
  by (cases a; cases b) auto

lemma py_le_refl: "a \<noteq> NaN \<Longrightarrow> py_le a a"
  by (cases a) auto

lemma py_not_le: "a \<noteq> NaN \<Longrightarrow> b \<noteq> NaN \<Longrightarrow> \<not> py_le a b \<Longrightarrow> py_lt b a"
  by (cases a; cases b) auto

lemma py_lt_not_le: "py_lt a b \<Longrightarrow> \<not> py_le b a"
  by (cases a; cases b) auto

lemma py_le_numbers: "py_le a b \<Longrightarrow> a \<noteq> NaN \<and> b \<noteq> NaN"
  by (cases a; cases b) auto

section \<open>Lemmas about the store\<close>

lemma find_one_update_one:
  "find_one (update_one coll k f) k' =
     (if k' = k then map_option f (find_one coll k) else find_one coll k')"
  by (induction coll) auto

lemma length_list_loop: "length (list_loop clock k docs) = length docs"
  by (induction docs arbitrary: k) (auto simp: Let_def)

lemma nth_list_loop:
  "j < length docs \<Longrightarrow>
   list_loop clock k docs ! j =
     \<lparr>doc = snd (docs ! j), doc_id = fst (docs ! j),
      is_live = (Auction.start_time (snd (docs ! j)) \<le> clock (k + j)
                 \<and> clock (k + j) \<le> Auction.end_time (snd (docs ! j))),
      has_ended = (clock (k + j) > Auction.end_time (snd (docs ! j)))\<rparr>"
proof (induction docs arbitrary: k j)
  case Nil
  then show ?case by simp
next
  case (Cons d docs)
  obtain i a where d: "d = (i, a)" by (cases d)
  show ?case
  proof (cases j)
    case 0
    then show ?thesis by (simp add: d Let_def)
  next
    case (Suc j')
    with Cons.prems have "j' < length docs" by simp
    from Cons.IH [OF this, of "Suc k"] show ?thesis
      by (simp add: d Suc Let_def)
  qed
qed

lemma find_one_insert_one:
  "find_one (insert_one coll new_id d) k =
     (case find_one coll k of Some x \<Rightarrow> Some x
      | None \<Rightarrow> if new_id = k then Some d else None)"
  by (induction coll) (auto simp: insert_one_def)

lemma stored_price_create:
  "stored_price db k = Some p \<Longrightarrow>
   stored_price (snd (create_auction now new_id payload db)) k = Some p"
  by (auto simp: stored_price_def create_auction_def create_document_def Let_def
      find_one_insert_one split: option.splits if_splits)

lemma stored_price_read: "stored_price db k = Some p \<Longrightarrow> price_read db k = Some p"
  by (auto simp: stored_price_def price_read_def float_of_def dict_get_def
      split: option.splits pyval.splits)

lemma check_bid_reads:
  assumes "check_bid now auction_id_arg payload db = Inr k'"
  shows "ObjectId auction_id_arg = Inr k'"
    and "find_one (auction_coll db) k' \<noteq> None"
    and "\<exists>c. price_read db k' = Some c \<and> \<not> py_le (PlaceBidRequest.amount payload) c"
  using assms
  by (auto simp: check_bid_def price_read_def split: sum.splits option.splits if_splits)

lemma stored_price_commit:
  "stored_price (commit_bid now new_id auction_id_arg k' payload db) k =
     (if k = k' \<and> find_one (auction_coll db) k' \<noteq> None
      then Some (PlaceBidRequest.amount payload) else stored_price db k)"
  by (auto simp: stored_price_def commit_bid_def Let_def find_one_update_one
      split: option.splits)

lemma price_read_commit:
  "price_read (commit_bid now new_id auction_id_arg k' payload db) k =
     (if k = k' \<and> find_one (auction_coll db) k' \<noteq> None
      then Some (PlaceBidRequest.amount payload) else price_read db k)"
  by (auto simp: price_read_def commit_bid_def Let_def find_one_update_one float_of_def
      dict_get_def split: option.splits)

lemma place_bid_cases:
  assumes "ObjectId auction_id_arg = Inr k"
  shows "(\<exists>e. place_bid now new_id auction_id_arg payload db = (Inl e, db))
       \<or> (place_bid now new_id auction_id_arg payload db
            = (Inr (new_id, PlaceBidRequest.amount payload),
               commit_bid now new_id auction_id_arg k payload db)
          \<and> stored_price (commit_bid now new_id auction_id_arg k payload db) k
              = Some (PlaceBidRequest.amount payload)
          \<and> price_read (commit_bid now new_id auction_id_arg k payload db) k
              = Some (PlaceBidRequest.amount payload)
          \<and> (\<exists>c. price_read db k = Some c \<and> \<not> py_le (PlaceBidRequest.amount payload) c))"
proof (cases "check_bid now auction_id_arg payload db")
  case (Inl e)
  then show ?thesis by (simp add: place_bid_def)
next
  case (Inr k')
  with check_bid_reads(1) [OF Inr] assms have kk: "k' = k" by simp
  from Inr kk check_bid_reads(2,3) [OF Inr]
  show ?thesis by (auto simp: place_bid_def stored_price_commit price_read_commit)
qed

lemma stored_price_place_bid_other:
  assumes "ObjectId auction_id_arg \<noteq> Inr k"
  shows "stored_price (snd (place_bid now new_id auction_id_arg payload db)) k
           = stored_price db k"
proof (cases "check_bid now auction_id_arg payload db")
  case (Inl e)
  then show ?thesis by (simp add: place_bid_def)
next
  case (Inr k')
  with check_bid_reads(1) [OF Inr] assms have "k \<noteq> k'" by auto
  with Inr show ?thesis by (simp add: place_bid_def stored_price_commit)
qed

lemma stored_price_place_bid:
  assumes "stored_price db k = Some p" and "p \<noteq> NaN"
      and "ObjectId auction_id_arg \<noteq> Inr k \<or> PlaceBidRequest.amount payload \<noteq> NaN"
  shows "\<exists>p'. stored_price (snd (place_bid now new_id auction_id_arg payload db)) k = Some p'
           \<and> py_le p p'"
proof (cases "ObjectId auction_id_arg = Inr k")
  case False
  with assms(1,2) stored_price_place_bid_other [OF False] show ?thesis
    by (simp add: py_le_refl)
next
  case True
  with assms(3) have n: "PlaceBidRequest.amount payload \<noteq> NaN" by simp
  from place_bid_cases [OF True, of now new_id payload db] show ?thesis
  proof
    assume "\<exists>e. place_bid now new_id auction_id_arg payload db = (Inl e, db)"
    with assms(1,2) show ?thesis by (auto simp: py_le_refl)
  next
    assume a: "place_bid now new_id auction_id_arg payload db
            = (Inr (new_id, PlaceBidRequest.amount payload),
               commit_bid now new_id auction_id_arg k payload db)
          \<and> stored_price (commit_bid now new_id auction_id_arg k payload db) k
              = Some (PlaceBidRequest.amount payload)
          \<and> price_read (commit_bid now new_id auction_id_arg k payload db) k
              = Some (PlaceBidRequest.amount payload)
          \<and> (\<exists>c. price_read db k = Some c \<and> \<not> py_le (PlaceBidRequest.amount payload) c)"
    with stored_price_read [OF assms(1)] have "\<not> py_le (PlaceBidRequest.amount payload) p"
      by auto
    with n assms(2) have "py_le p (PlaceBidRequest.amount payload)"
      by (simp add: py_not_le py_lt_imp_le)
    with a show ?thesis by simp
  qed
qed

lemma run_bids_none:
  "run_bids reqs auction_id_arg db = ([], db') \<Longrightarrow> db' = db"
proof (induction reqs arbitrary: db)
  case Nil
  then show ?case by simp
next
  case (Cons r reqs)
  obtain now new_id payload where r: "r = (now, new_id, payload)" by (cases r)
  show ?case
  proof (cases "check_bid now auction_id_arg payload db")
    case (Inl e)
    with Cons.prems r have "run_bids reqs auction_id_arg db = ([], db')"
      by (simp add: place_bid_def)
    with Cons.IH show ?thesis by simp
  next
    case (Inr k')
    with Cons.prems r show ?thesis by (simp add: place_bid_def split: prod.splits)
  qed
qed

lemma run_bids_from_price:
  assumes "ObjectId auction_id_arg = Inr k"
      and "run_bids reqs auction_id_arg db = (accepted, db')"
      and "price_read db k = Some p" and "p \<noteq> NaN"
      and "list_all amount_is_number reqs"
  shows "(\<forall>x \<in> set accepted. py_lt p x) \<and> sorted_wrt py_lt accepted
       \<and> price_read db' k = Some (if accepted = [] then p else last accepted)
       \<and> (accepted \<noteq> [] \<longrightarrow> stored_price db' k = Some (last accepted))"
  using assms(2-5)
proof (induction reqs arbitrary: db accepted p)
  case Nil
  then show ?case by simp
next
  case (Cons r reqs)
  obtain now new_id payload where r: "r = (now, new_id, payload)" by (cases r)
  from Cons.prems(4) r have n: "PlaceBidRequest.amount payload \<noteq> NaN"
    and rest: "list_all amount_is_number reqs" by simp_all
  from place_bid_cases [OF assms(1), of now new_id payload db]
  show ?case
  proof
    assume "\<exists>e. place_bid now new_id auction_id_arg payload db = (Inl e, db)"
    with Cons.prems r have "run_bids reqs auction_id_arg db = (accepted, db')" by auto
    from Cons.IH [OF this Cons.prems(2,3) rest] show ?thesis .
  next
    let ?db1 = "commit_bid now new_id auction_id_arg k payload db"
    let ?x = "PlaceBidRequest.amount payload"
    assume a: "place_bid now new_id auction_id_arg payload db = (Inr (new_id, ?x), ?db1)
          \<and> stored_price ?db1 k = Some ?x
          \<and> price_read ?db1 k = Some ?x
          \<and> (\<exists>c. price_read db k = Some c \<and> \<not> py_le ?x c)"
    obtain acc where acc: "run_bids reqs auction_id_arg ?db1 = (acc, db')"
      and accepted: "accepted = ?x # acc"
      using Cons.prems(1) r a by (auto split: prod.splits)
    from a have sp: "price_read ?db1 k = Some ?x" and st: "stored_price ?db1 k = Some ?x"
      by simp_all
    from a Cons.prems(2) have "\<not> py_le ?x p" by auto
    with n Cons.prems(3) have px: "py_lt p ?x" by (simp add: py_not_le)
    from Cons.IH [OF acc sp n rest]
    have i1: "\<forall>y \<in> set acc. py_lt ?x y" and i2: "sorted_wrt py_lt acc"
      and i3: "price_read db' k = Some (if acc = [] then ?x else last acc)"
      and i4: "acc \<noteq> [] \<longrightarrow> stored_price db' k = Some (last acc)" by blast+
    from i1 px have "\<forall>y \<in> set acc. py_lt p y" by (blast intro: py_lt_trans)
    moreover have "acc = [] \<Longrightarrow> stored_price db' k = Some ?x"
      using acc st run_bids_none [of reqs auction_id_arg ?db1 db'] by simp
    ultimately show ?thesis using px i1 i2 i3 i4 accepted by auto
  qed
qed

lemma run_bids_numbers:
  "run_bids reqs auction_id_arg db = (accepted, db') \<Longrightarrow> list_all amount_is_number reqs
   \<Longrightarrow> \<forall>x \<in> set accepted. x \<noteq> NaN"
proof (induction reqs arbitrary: db accepted)
  case Nil
  then show ?case by simp
next
  case (Cons r reqs)
  obtain now new_id payload where r: "r = (now, new_id, payload)" by (cases r)
  show ?case
  proof (cases "check_bid now auction_id_arg payload db")
    case (Inl e)
    with Cons.prems r have "run_bids reqs auction_id_arg db = (accepted, db')"
      by (simp add: place_bid_def)
    with Cons.IH Cons.prems(2) show ?thesis by simp
  next
    case (Inr k')
    with Cons.prems(1) r obtain acc where
      acc: "run_bids reqs auction_id_arg
              (commit_bid now new_id auction_id_arg k' payload db) = (acc, db')"
      and accepted: "accepted = PlaceBidRequest.amount payload # acc"
      by (auto simp: place_bid_def split: prod.splits)
    from Cons.IH [OF acc] Cons.prems(2) r accepted show ?thesis by simp
  qed
qed

lemma last_is_greatest:
  "sorted_wrt py_lt xs \<Longrightarrow> \<forall>x \<in> set xs. x \<noteq> NaN \<Longrightarrow> xs \<noteq> []
   \<Longrightarrow> \<forall>x \<in> set xs. py_le x (last xs)"
proof (induction xs)
  case Nil
  then show ?case by simp
next
  case (Cons x xs)
  show ?case
  proof (cases "xs = []")
    case True
    with Cons.prems show ?thesis by (simp add: py_le_refl)
  next
    case False
    with Cons have m: "\<forall>y \<in> set xs. py_le y (last xs)" by simp
    from False have "last xs \<in> set xs" by simp
    with Cons.prems have "py_lt x (last xs)" by auto
    with m False show ?thesis by (simp add: py_lt_imp_le)
  qed
qed

lemma ObjectId_example: "ObjectId example_id = Inr example_id"
  by (simp add: ObjectId_def example_id_def is_hex_digit_def hex_lower_def)



lemma in_list_loop:
  "r \<in> set (list_loop clock k docs) \<Longrightarrow> (doc_id r, doc r) \<in> set docs"
  by (induction clock k docs rule: list_loop.induct) (auto simp: Let_def)

lemma list_loop_status:
  "map (\<lambda>r. (doc_id r, is_live r, has_ended r))
     (list_loop clock k (map (\<lambda>(i, a). (i, a\<lparr>status := g a\<rparr>)) docs))
   = map (\<lambda>r. (doc_id r, is_live r, has_ended r)) (list_loop clock k docs)"
  by (induction clock k docs rule: list_loop.induct) (auto simp: Let_def)

section \<open>What \<^verbatim>\<open>place_bid\<close> does on stored numbers\<close>

text \<open>
  With a float stored as the price (under \<^verbatim>\<open>current_price\<close>, or under \<^verbatim>\<open>starting_price\<close>
  when the key \<^verbatim>\<open>current_price\<close> is missing), a bid above it is accepted and written, and a
  bid at most equal to it is refused.
\<close>

lemma place_bid_accepts_number:
  assumes "ObjectId auction_id_arg = Inr k"
      and "find_one (auction_coll db) k = Some a"
      and "Auction.start_time a \<le> now" and "now \<le> Auction.end_time a"
      and "case current_price a of
             Some v \<Rightarrow> v = PyFloat cur
           | None \<Rightarrow> Auction.starting_price a = Some (PyFloat cur)"
      and "py_lt cur (PlaceBidRequest.amount payload)"
  shows "fst (place_bid now new_id auction_id_arg payload db)
           = Inr (new_id, PlaceBidRequest.amount payload)
       \<and> bid_coll (snd (place_bid now new_id auction_id_arg payload db))
           = bid_coll db @ [(new_id, \<lparr>auction_id = auction_id_arg,
                                      bidder_name = PlaceBidRequest.bidder_name payload,
                                      amount = PlaceBidRequest.amount payload,
                                      created_at = now\<rparr>)]
       \<and> find_one (auction_coll (snd (place_bid now new_id auction_id_arg payload db))) k
           = Some (a\<lparr>current_price := Some (PyFloat (PlaceBidRequest.amount payload)),
                     updated_at := Some now\<rparr>)"
proof -
  from assms(5) have "float_of (dict_get (current_price a)
            (dict_get (Auction.starting_price a) (PyFloat (Finite 0)))) = Inr cur"
    by (auto simp: float_of_def dict_get_def split: option.splits)
  with assms py_lt_not_le [OF assms(6)] have "check_bid now auction_id_arg payload db = Inr k"
    by (simp add: check_bid_def)
  then show ?thesis using assms(2)
    by (simp add: place_bid_def commit_bid_def insert_one_def Let_def find_one_update_one)
qed

lemma place_bid_refuses_le:
  assumes "ObjectId auction_id_arg = Inr k"
      and "find_one (auction_coll db) k = Some a"
      and "Auction.start_time a \<le> now" and "now \<le> Auction.end_time a"
      and "case current_price a of
             Some v \<Rightarrow> v = PyFloat cur
           | None \<Rightarrow> Auction.starting_price a = Some (PyFloat cur)"
      and "py_le (PlaceBidRequest.amount payload) cur"
  shows "place_bid now new_id auction_id_arg payload db
           = (Inl (HTTPException 400 ''Bid must be higher than current price''), db)"
proof -
  from assms(5) have "float_of (dict_get (current_price a)
            (dict_get (Auction.starting_price a) (PyFloat (Finite 0)))) = Inr cur"
    by (auto simp: float_of_def dict_get_def split: option.splits)
  with assms show ?thesis
    by (simp add: place_bid_def check_bid_def)
qed

section \<open>Placing a bid\<close>

text \<open>
  C1. The claim has the price default to \<^verbatim>\<open>starting_price\<close> when \<^verbatim>\<open>current_price\<close> is
  unset. For a stored auction whose key \<^verbatim>\<open>current_price\<close> holds \<^verbatim>\<open>None\<close>, as
  \<^verbatim>\<open>schemas.Auction\<close> has it by default, \<^verbatim>\<open>dict.get\<close> returns that \<^verbatim>\<open>None\<close> and not the
  default, \<^verbatim>\<open>float(None)\<close> raises \<^verbatim>\<open>TypeError\<close>, and a live bid above the starting price
  is not recorded.
\<close>

theorem place_bid_null_current_price:
  "find_one (auction_coll example_null_db) example_id = Some example_null_auction
   \<and> current_price example_null_auction = Some PyNone
   \<and> Auction.starting_price example_null_auction = Some (PyFloat (Finite 100))
   \<and> Auction.start_time example_null_auction \<le> 500
   \<and> 500 \<le> Auction.end_time example_null_auction
   \<and> py_lt (Finite 100) (PlaceBidRequest.amount (bid_of ''A'' 150))
   \<and> place_bid 500 ''b1'' example_id (bid_of ''A'' 150) example_null_db
       = (Inl TypeError, example_null_db)"
  by (simp add: place_bid_def check_bid_def ObjectId_example example_null_db_def
      example_null_auction_def example_auction_def bid_of_def float_of_def dict_get_def)

text \<open>
  C4. The claim has acceptance require an amount strictly above the current price. A bid
  whose amount is \<^verbatim>\<open>nan\<close> is not at most the price, since every comparison with \<^verbatim>\<open>nan\<close> is
  false, so the check of line 122 lets it through: the bid is inserted and \<^verbatim>\<open>nan\<close> becomes
  the \<^verbatim>\<open>current_price\<close>, although the amount is not above the price.
\<close>

theorem place_bid_accepts_nan:
  "price_read example_db example_id = Some (Finite 100)
   \<and> \<not> py_lt (Finite 100) (PlaceBidRequest.amount nan_bid)
   \<and> fst (place_bid 500 ''b1'' example_id nan_bid example_db) = Inr (''b1'', NaN)
   \<and> bid_coll (snd (place_bid 500 ''b1'' example_id nan_bid example_db))
       = [(''b1'', \<lparr>auction_id = example_id, bidder_name = ''N'', amount = NaN,
                    created_at = 500\<rparr>)]
   \<and> stored_price (snd (place_bid 500 ''b1'' example_id nan_bid example_db)) example_id
       = Some NaN"
  by (simp add: place_bid_def check_bid_def commit_bid_def insert_one_def ObjectId_example
      example_db_def example_auction_def nan_bid_def float_of_def dict_get_def Let_def
      stored_price_def price_read_def)

text \<open>
  C5. An identifier that is not 24 hexadecimal characters: \<^verbatim>\<open>ObjectId\<close> raises
  \<^verbatim>\<open>InvalidId\<close> outside any \<^verbatim>\<open>try\<close>, so \<^verbatim>\<open>place_bid\<close> ends with that exception and not
  with the 404 answer; the store is unchanged.
\<close>

theorem place_bid_malformed_id:
  "place_bid now new_id ''not-an-object-id'' payload db = (Inl InvalidId, db)"
  by (simp add: place_bid_def check_bid_def ObjectId_def)

text \<open>
  C10. Whenever \<^verbatim>\<open>place_bid\<close> raises, the store is what it was: no bid document is
  inserted and no auction is changed.
\<close>

theorem place_bid_rejection_keeps_state:
  assumes "fst (place_bid now new_id auction_id_arg payload db) = Inl e"
  shows "snd (place_bid now new_id auction_id_arg payload db) = db"
  using assms by (simp add: place_bid_def split: sum.splits)

theorem place_bid_rejection_keeps_state_witness:
  "fst (place_bid 2000 ''b3'' example_id (bid_of ''C'' 500) example_db)
     = Inl (HTTPException 400 ''Auction is not live'')
   \<and> snd (place_bid 2000 ''b3'' example_id (bid_of ''C'' 500) example_db) = example_db"
proof -
  have r: "fst (place_bid 2000 ''b3'' example_id (bid_of ''C'' 500) example_db)
     = Inl (HTTPException 400 ''Auction is not live'')"
    by (simp add: place_bid_def check_bid_def ObjectId_example example_db_def
        example_auction_def)
  from place_bid_rejection_keeps_state [OF r] r show ?thesis by simp
qed

section \<open>The lifecycle status\<close>

text \<open>
  C2, as stated for every triple, fails on a window whose end lies before its start: at a
  \<open>now\<close> between the two, \<open>now < start_time\<close> holds and the status is not scheduled.
\<close>

theorem status_counterexample:
  "(7::int) < 10 \<and> initial_status 7 10 5 \<noteq> ''scheduled''"
  by (simp add: initial_status_def)

text \<open>
  C2, amended. For a window with \<open>start_time \<le> end_time\<close> the status computed at creation
  is scheduled when \<open>now < start_time\<close>, live when \<open>start_time \<le> now \<le> end_time\<close> and ended
  when \<open>now > end_time\<close>; the flags \<^verbatim>\<open>is_live\<close> and \<^verbatim>\<open>has_ended\<close> of a listed auction
  say live and ended by the same rules, at the reading of the clock made for that auction.
\<close>

theorem lifecycle_status_rules:
  assumes "start_t \<le> end_t"
      and "k < length (list_auctions clock status_arg limit db)"
  shows "initial_status now start_t end_t =
           (if now < start_t then ''scheduled''
            else if now \<le> end_t then ''live'' else ''ended'')
         \<and> is_live (list_auctions clock status_arg limit db ! k) =
             (initial_status (clock k)
                (Auction.start_time (doc (list_auctions clock status_arg limit db ! k)))
                (Auction.end_time (doc (list_auctions clock status_arg limit db ! k))) = ''live'')
         \<and> has_ended (list_auctions clock status_arg limit db ! k) =
             (initial_status (clock k)
                (Auction.start_time (doc (list_auctions clock status_arg limit db ! k)))
                (Auction.end_time (doc (list_auctions clock status_arg limit db ! k))) = ''ended'')"
proof -
  have a: "initial_status now start_t end_t =
           (if now < start_t then ''scheduled''
            else if now \<le> end_t then ''live'' else ''ended'')"
    using assms(1) by (auto simp: initial_status_def)
  from assms(2) have "k < length (get_documents (auction_coll db)
         (case status_arg of None \<Rightarrow> None | Some s \<Rightarrow> if s \<noteq> [] then Some s else None) limit)"
    by (simp add: list_auctions_def Let_def length_list_loop)
  from nth_list_loop [OF this, of clock 0]
  have b: "is_live (list_auctions clock status_arg limit db ! k) =
             (initial_status (clock k)
                (Auction.start_time (doc (list_auctions clock status_arg limit db ! k)))
                (Auction.end_time (doc (list_auctions clock status_arg limit db ! k))) = ''live'')"
    and c: "has_ended (list_auctions clock status_arg limit db ! k) =
             (initial_status (clock k)
                (Auction.start_time (doc (list_auctions clock status_arg limit db ! k)))
                (Auction.end_time (doc (list_auctions clock status_arg limit db ! k))) = ''ended'')"
    by (auto simp: list_auctions_def Let_def initial_status_def)
  from a b c show ?thesis by blast
qed

theorem lifecycle_status_rules_witness:
  "(0::int) \<le> 1000 \<and> 0 < length (list_auctions (\<lambda>k. 500) None 20 example_db)
   \<and> initial_status 500 0 1000 = ''live''
   \<and> is_live (list_auctions (\<lambda>k. 500) None 20 example_db ! 0)
   \<and> \<not> has_ended (list_auctions (\<lambda>k. 500) None 20 example_db ! 0)"
proof -
  have l: "0 < length (list_auctions (\<lambda>k. 500) None 20 example_db)"
    by (simp add: list_auctions_def get_documents_def example_db_def Let_def)
  have d: "doc (list_auctions (\<lambda>k. 500) None 20 example_db ! 0) = example_auction"
    by (simp add: list_auctions_def get_documents_def example_db_def Let_def)
  have s: "initial_status 500 0 1000 = ''live''"
    by (simp add: initial_status_def)
  have w: "(0::int) \<le> 1000" by simp
  from lifecycle_status_rules [OF w l, of 500] d s l show ?thesis
    by (simp add: example_auction_def)
qed

section \<open>The price over time\<close>

text \<open>
  C3, as stated, fails in two ways. Handled one after the other, a bid of \<^verbatim>\<open>nan\<close> is
  accepted and stored, after which a bid of 1 is accepted on an auction that stood at 100.
  And when two requests pass the check on the same stored price, the write of the lower
  bid takes the stored price from 200 down to 150.
\<close>

theorem price_decrease_counterexample:
  "stored_price example_db example_id = Some (Finite 100)
   \<and> stored_price (serve [PlaceBid 500 ''b1'' example_id nan_bid] example_db) example_id
       = Some NaN
   \<and> stored_price
        (serve [PlaceBid 500 ''b1'' example_id nan_bid,
                PlaceBid 501 ''b2'' example_id (bid_of ''B'' 1)] example_db) example_id
       = Some (Finite 1)
   \<and> check_bid 500 example_id (bid_of ''A'' 150) example_db = Inr example_id
   \<and> check_bid 500 example_id (bid_of ''B'' 200) example_db = Inr example_id
   \<and> stored_price
        (commit_bid 500 ''b2'' example_id example_id (bid_of ''B'' 200) example_db)
        example_id = Some (Finite 200)
   \<and> stored_price
        (commit_bid 500 ''b1'' example_id example_id (bid_of ''A'' 150)
           (commit_bid 500 ''b2'' example_id example_id (bid_of ''B'' 200) example_db))
        example_id = Some (Finite 150)"
  by (simp add: place_bid_def check_bid_def commit_bid_def insert_one_def ObjectId_example
      example_db_def example_auction_def nan_bid_def bid_of_def float_of_def dict_get_def
      Let_def stored_price_def)

text \<open>
  C3, amended. Over every sequence of requests that create auctions and place bids, each
  handled to its end before the next starts, in which no bid on the auction carries
  \<^verbatim>\<open>nan\<close>, a stored \<^verbatim>\<open>current_price\<close> that is a number never goes down; and a bid of such
  an amount that is accepted is strictly above the price it replaces.
\<close>

theorem current_price_monotone:
  assumes "stored_price db k = Some p" and "p \<noteq> NaN"
      and "list_all (bid_is_number_for k) rs"
  shows "(\<exists>p'. stored_price (serve rs db) k = Some p' \<and> py_le p p')
       \<and> (ObjectId auction_id_arg = Inr k
            \<and> fst (place_bid now new_id auction_id_arg payload db) = Inr r
            \<and> PlaceBidRequest.amount payload \<noteq> NaN
          \<longrightarrow> py_lt p (PlaceBidRequest.amount payload)
              \<and> stored_price (snd (place_bid now new_id auction_id_arg payload db)) k
                  = Some (PlaceBidRequest.amount payload))"
proof
  show "\<exists>p'. stored_price (serve rs db) k = Some p' \<and> py_le p p'"
    using assms
  proof (induction rs arbitrary: db p)
    case Nil
    then show ?case by (simp add: py_le_refl)
  next
    case (Cons r rs)
    have "\<exists>q. stored_price (handle r db) k = Some q \<and> py_le p q"
    proof (cases r)
      case (CreateAuction now new_id payload)
      with Cons.prems(1,2) stored_price_create show ?thesis by (simp add: py_le_refl)
    next
      case (PlaceBid now new_id auction_id_arg payload)
      with Cons.prems(3)
      have "ObjectId auction_id_arg \<noteq> Inr k \<or> PlaceBidRequest.amount payload \<noteq> NaN"
        by simp
      from stored_price_place_bid [OF Cons.prems(1,2) this] PlaceBid show ?thesis by simp
    qed
    then obtain q where q: "stored_price (handle r db) k = Some q" and pq: "py_le p q"
      by blast
    from pq have qn: "q \<noteq> NaN" by (simp add: py_le_numbers)
    from Cons.prems(3) have "list_all (bid_is_number_for k) rs" by simp
    from Cons.IH [OF q qn this] obtain p'
      where "stored_price (serve rs (handle r db)) k = Some p'" and "py_le q p'" by blast
    with pq show ?case by (auto intro: py_le_trans)
  qed
next
  show "ObjectId auction_id_arg = Inr k
            \<and> fst (place_bid now new_id auction_id_arg payload db) = Inr r
            \<and> PlaceBidRequest.amount payload \<noteq> NaN
          \<longrightarrow> py_lt p (PlaceBidRequest.amount payload)
              \<and> stored_price (snd (place_bid now new_id auction_id_arg payload db)) k
                  = Some (PlaceBidRequest.amount payload)"
  proof
    assume a: "ObjectId auction_id_arg = Inr k
            \<and> fst (place_bid now new_id auction_id_arg payload db) = Inr r
            \<and> PlaceBidRequest.amount payload \<noteq> NaN"
    then have o: "ObjectId auction_id_arg = Inr k" by simp
    from place_bid_cases [OF o, of now new_id payload db] a stored_price_read [OF assms(1)]
    have "\<not> py_le (PlaceBidRequest.amount payload) p"
      and s: "stored_price (snd (place_bid now new_id auction_id_arg payload db)) k
                  = Some (PlaceBidRequest.amount payload)"
      by auto
    with a assms(2) show "py_lt p (PlaceBidRequest.amount payload)
              \<and> stored_price (snd (place_bid now new_id auction_id_arg payload db)) k
                  = Some (PlaceBidRequest.amount payload)"
      by (simp add: py_not_le)
  qed
qed

theorem current_price_monotone_witness:
  "stored_price example_db example_id = Some (Finite 100)
   \<and> list_all (bid_is_number_for example_id)
        [PlaceBid 500 ''b1'' example_id (bid_of ''A'' 150),
         PlaceBid 501 ''b2'' example_id (bid_of ''B'' 120)]
   \<and> stored_price
        (serve [PlaceBid 500 ''b1'' example_id (bid_of ''A'' 150),
                PlaceBid 501 ''b2'' example_id (bid_of ''B'' 120)] example_db) example_id
       = Some (Finite 150)
   \<and> ObjectId example_id = Inr example_id
   \<and> fst (place_bid 500 ''b1'' example_id (bid_of ''A'' 150) example_db)
       = Inr (''b1'', Finite 150)
   \<and> stored_price (snd (place_bid 500 ''b1'' example_id (bid_of ''A'' 150) example_db))
        example_id = Some (Finite 150)"
proof -
  have s: "stored_price example_db example_id = Some (Finite 100)"
    by (simp add: stored_price_def example_db_def example_auction_def)
  have n: "Finite 100 \<noteq> NaN" by simp
  have l: "list_all (bid_is_number_for example_id)
        [PlaceBid 500 ''b1'' example_id (bid_of ''A'' 150),
         PlaceBid 501 ''b2'' example_id (bid_of ''B'' 120)]"
    by (simp add: bid_of_def)
  have e: "stored_price
        (serve [PlaceBid 500 ''b1'' example_id (bid_of ''A'' 150),
                PlaceBid 501 ''b2'' example_id (bid_of ''B'' 120)] example_db) example_id
       = Some (Finite 150)"
    by (simp add: place_bid_def check_bid_def commit_bid_def insert_one_def ObjectId_example
        example_db_def example_auction_def bid_of_def float_of_def dict_get_def Let_def
        stored_price_def)
  have f: "fst (place_bid 500 ''b1'' example_id (bid_of ''A'' 150) example_db)
             = Inr (''b1'', Finite 150)"
    by (simp add: place_bid_def check_bid_def ObjectId_example example_db_def
        example_auction_def bid_of_def float_of_def dict_get_def)
  from current_price_monotone [OF s n l, of example_id 500 "''b1''"
                "bid_of ''A'' 150" "(''b1'', Finite 150)"] s e f l ObjectId_example
  show ?thesis by (simp add: bid_of_def)
qed

text \<open>
  C7, as stated, fails: \<^verbatim>\<open>place_bid\<close> reads the price and later writes it with an
  unconditional \<^verbatim>\<open>$set\<close>. Two requests that both pass the check on the same stored
  price are both accepted, and when the higher bid is written first the final price is the
  lower amount.
\<close>

theorem lost_update_counterexample:
  "check_bid 500 example_id (bid_of ''A'' 150) example_db = Inr example_id
   \<and> check_bid 500 example_id (bid_of ''B'' 200) example_db = Inr example_id
   \<and> stored_price
        (commit_bid 500 ''b1'' example_id example_id (bid_of ''A'' 150)
           (commit_bid 500 ''b2'' example_id example_id (bid_of ''B'' 200) example_db))
        example_id = Some (Finite 150)"
  by (simp add: check_bid_def ObjectId_example example_db_def example_auction_def bid_of_def
      float_of_def dict_get_def stored_price_def commit_bid_def insert_one_def Let_def)

text \<open>
  C7, amended. For bids on one auction handled one after the other, none of them carrying
  \<^verbatim>\<open>nan\<close>, the accepted amounts are strictly increasing, each above the price read when it
  is accepted if that price is a number, and the final \<^verbatim>\<open>current_price\<close> is the largest
  accepted amount.
\<close>

theorem sequential_bids_final_price:
  assumes "ObjectId auction_id_arg = Inr k"
      and "run_bids reqs auction_id_arg db = (accepted, db')"
      and "accepted \<noteq> []"
      and "list_all amount_is_number reqs"
  shows "sorted_wrt py_lt accepted
       \<and> stored_price db' k = Some (last accepted)
       \<and> (\<forall>x \<in> set accepted. py_le x (last accepted))
       \<and> (\<forall>p. price_read db k = Some p \<and> p \<noteq> NaN \<longrightarrow> (\<forall>x \<in> set accepted. py_lt p x))"
proof -
  have a: "sorted_wrt py_lt accepted \<and> stored_price db' k = Some (last accepted)"
    using assms(2,3,4)
  proof (induction reqs arbitrary: db accepted)
    case Nil
    then show ?case by simp
  next
    case (Cons r reqs)
    obtain now new_id payload where r: "r = (now, new_id, payload)" by (cases r)
    from Cons.prems(3) r have n: "PlaceBidRequest.amount payload \<noteq> NaN"
      and rest: "list_all amount_is_number reqs" by simp_all
    from place_bid_cases [OF assms(1), of now new_id payload db]
    show ?case
    proof
      assume "\<exists>e. place_bid now new_id auction_id_arg payload db = (Inl e, db)"
      with Cons.prems r have "run_bids reqs auction_id_arg db = (accepted, db')" by auto
      from Cons.IH [OF this Cons.prems(2) rest] show ?thesis .
    next
      let ?db1 = "commit_bid now new_id auction_id_arg k payload db"
      let ?x = "PlaceBidRequest.amount payload"
      assume c: "place_bid now new_id auction_id_arg payload db = (Inr (new_id, ?x), ?db1)
            \<and> stored_price ?db1 k = Some ?x
            \<and> price_read ?db1 k = Some ?x
            \<and> (\<exists>c. price_read db k = Some c \<and> \<not> py_le ?x c)"
      obtain acc where acc: "run_bids reqs auction_id_arg ?db1 = (acc, db')"
        and accepted: "accepted = ?x # acc"
        using Cons.prems(1) r c by (auto split: prod.splits)
      from c have sp: "price_read ?db1 k = Some ?x" and st: "stored_price ?db1 k = Some ?x"
        by simp_all
      have "acc = [] \<Longrightarrow> stored_price db' k = Some ?x"
        using acc st run_bids_none [of reqs auction_id_arg ?db1 db'] by simp
      with run_bids_from_price [OF assms(1) acc sp n rest] accepted show ?thesis by auto
    qed
  qed
  from run_bids_numbers [OF assms(2,4)] have nn: "\<forall>x \<in> set accepted. x \<noteq> NaN" .
  from a nn assms(3) have b: "\<forall>x \<in> set accepted. py_le x (last accepted)"
    by (simp add: last_is_greatest)
  have c: "\<forall>p. price_read db k = Some p \<and> p \<noteq> NaN \<longrightarrow> (\<forall>x \<in> set accepted. py_lt p x)"
    using run_bids_from_price [OF assms(1,2) _ _ assms(4)] by blast
  from a b c show ?thesis by blast
qed

theorem sequential_bids_final_price_witness:
  "ObjectId example_id = Inr example_id
   \<and> list_all amount_is_number
        [(500, ''b1'', bid_of ''A'' 150), (501, ''b2'', bid_of ''B'' 120),
         (502, ''b3'', bid_of ''C'' 200)]
   \<and> price_read example_db example_id = Some (Finite 100)
   \<and> fst (run_bids [(500, ''b1'', bid_of ''A'' 150), (501, ''b2'', bid_of ''B'' 120),
                (502, ''b3'', bid_of ''C'' 200)] example_id example_db)
       = [Finite 150, Finite 200]
   \<and> stored_price
        (snd (run_bids [(500, ''b1'', bid_of ''A'' 150), (501, ''b2'', bid_of ''B'' 120),
                (502, ''b3'', bid_of ''C'' 200)] example_id example_db)) example_id
       = Some (Finite 200)
   \<and> sorted_wrt py_lt [Finite 150, Finite 200]"
proof -
  let ?reqs = "[(500, ''b1'', bid_of ''A'' 150), (501, ''b2'', bid_of ''B'' 120),
                (502, ''b3'', bid_of ''C'' 200)]"
  have f: "fst (run_bids ?reqs example_id example_db) = [Finite 150, Finite 200]"
    by (simp add: place_bid_def check_bid_def commit_bid_def insert_one_def ObjectId_example
        example_db_def example_auction_def bid_of_def float_of_def dict_get_def Let_def)
  then have r: "run_bids ?reqs example_id example_db
       = ([Finite 150, Finite 200], snd (run_bids ?reqs example_id example_db))"
    by (metis prod.collapse)
  have n: "[Finite 150, Finite 200] \<noteq> []" by simp
  have l: "list_all amount_is_number ?reqs" by (simp add: bid_of_def)
  have p: "price_read example_db example_id = Some (Finite 100)"
    by (simp add: price_read_def example_db_def example_auction_def float_of_def dict_get_def)
  from sequential_bids_final_price [OF ObjectId_example r n l] ObjectId_example f l p
  show ?thesis by simp
qed

section \<open>Reading auctions\<close>

text \<open>
  C6, as stated, fails: the status filter of \<^verbatim>\<open>list_auctions\<close> goes to the store as
  \<^verbatim>\<open>{"status": status}\<close> and selects on the stored field. An auction stored as scheduled
  whose window contains \<open>now\<close> is not listed under the filter live; it is listed under the
  filter scheduled, with \<^verbatim>\<open>is_live\<close> true.
\<close>

theorem stored_status_counterexample:
  "list_auctions (\<lambda>k. 500) (Some ''live'') 20 example_db = []
   \<and> map (\<lambda>r. (status (doc r), is_live r, has_ended r))
        (list_auctions (\<lambda>k. 500) (Some ''scheduled'') 20 example_db)
       = [(''scheduled'', True, False)]"
  by (simp add: list_auctions_def get_documents_def example_db_def example_auction_def Let_def)

text \<open>
  C6, amended. Listing with a status filter returns auctions whose stored status is the
  filter; fetching one auction returns the stored document, status included, and computes
  no status; the flags \<^verbatim>\<open>is_live\<close> and \<^verbatim>\<open>has_ended\<close> of a listing are computed from the
  clock and the window and are the same whatever the stored status fields hold.
\<close>

theorem read_paths_status:
  assumes "r \<in> set (list_auctions clock (Some s) limit db)" and "s \<noteq> []"
      and "get_auction sort_desc auction_id_arg db = Inr d"
  shows "status (doc r) = s
       \<and> find_one (auction_coll db) (detail_id d) = Some (detail_doc d)
       \<and> map (\<lambda>r. (doc_id r, is_live r, has_ended r))
           (list_auctions clock None limit
              (db\<lparr>auction_coll := map (\<lambda>(i, a). (i, a\<lparr>status := g a\<rparr>)) (auction_coll db)\<rparr>))
         = map (\<lambda>r. (doc_id r, is_live r, has_ended r)) (list_auctions clock None limit db)"
proof -
  from assms(1,2) have "(doc_id r, doc r) \<in> set (get_documents (auction_coll db) (Some s) limit)"
    by (simp add: list_auctions_def Let_def in_list_loop)
  then have "(doc_id r, doc r) \<in> set (filter (\<lambda>(i, a). status a = s) (auction_coll db))"
    by (auto simp: get_documents_def dest: in_set_takeD)
  then have a: "status (doc r) = s" by simp
  from assms(3) have b: "find_one (auction_coll db) (detail_id d) = Some (detail_doc d)"
    by (auto simp: get_auction_def split: sum.splits option.splits)
  have c: "map (\<lambda>r. (doc_id r, is_live r, has_ended r))
           (list_auctions clock None limit
              (db\<lparr>auction_coll := map (\<lambda>(i, a). (i, a\<lparr>status := g a\<rparr>)) (auction_coll db)\<rparr>))
         = map (\<lambda>r. (doc_id r, is_live r, has_ended r)) (list_auctions clock None limit db)"
    using list_loop_status [of clock 0 g "take limit (auction_coll db)"]
    by (simp add: list_auctions_def get_documents_def Let_def take_map)
  from a b c show ?thesis by blast
qed

theorem read_paths_status_witness:
  "list_auctions (\<lambda>k. 500) (Some ''scheduled'') 20 example_db
     = [\<lparr>doc = example_auction, doc_id = example_id, is_live = True, has_ended = False\<rparr>]
   \<and> get_auction earliest_first example_id example_db
     = Inr \<lparr>detail_doc = example_auction, detail_id = example_id, top_bids = []\<rparr>
   \<and> status example_auction = ''scheduled''
   \<and> find_one (auction_coll example_db) example_id = Some example_auction
   \<and> map (\<lambda>r. (doc_id r, is_live r, has_ended r))
        (list_auctions (\<lambda>k. 500) None 20
           (example_db\<lparr>auction_coll :=
              map (\<lambda>(i, a). (i, a\<lparr>status := ''ended''\<rparr>)) (auction_coll example_db)\<rparr>))
      = [(example_id, True, False)]"
proof -
  have l: "list_auctions (\<lambda>k. 500) (Some ''scheduled'') 20 example_db
     = [\<lparr>doc = example_auction, doc_id = example_id, is_live = True, has_ended = False\<rparr>]"
    by (simp add: list_auctions_def get_documents_def example_db_def example_auction_def Let_def)
  have g: "get_auction earliest_first example_id example_db
     = Inr \<lparr>detail_doc = example_auction, detail_id = example_id, top_bids = []\<rparr>"
    by (simp add: get_auction_def ObjectId_example example_db_def earliest_first_def)
  have n: "list_auctions (\<lambda>k. 500) None 20 example_db
     = [\<lparr>doc = example_auction, doc_id = example_id, is_live = True, has_ended = False\<rparr>]"
    by (simp add: list_auctions_def get_documents_def example_db_def example_auction_def Let_def)
  have m: "\<lparr>doc = example_auction, doc_id = example_id, is_live = True, has_ended = False\<rparr>
      \<in> set (list_auctions (\<lambda>k. 500) (Some ''scheduled'') 20 example_db)"
    by (simp add: l)
  have s: "''scheduled'' \<noteq> []" by simp
  from read_paths_status [OF m s g, of "\<lambda>a. ''ended''"] l g n show ?thesis by simp
qed

text \<open>
  C8, as stated, fails: \<^verbatim>\<open>now\<close> is assigned in the body of the loop, so every listed auction
  has its own reading of the clock. Two auctions with the same window, listed by one request
  while the clock passes the end of the window, get different flags.
\<close>

theorem clock_per_auction_counterexample:
  "map (\<lambda>r. (Auction.start_time (doc r), Auction.end_time (doc r), is_live r, has_ended r))
     (list_auctions (\<lambda>k. 500 + 1000 * int k) None 20 example_db2)
   = [(0, 1000, True, False), (0, 1000, False, True)]"
  by (simp add: list_auctions_def get_documents_def example_db2_def example_auction_def Let_def)

text \<open>
  C8, amended. For every listed auction one reading of the clock is made, the \<open>k\<close>-th of
  the request for the \<open>k\<close>-th auction, and that reading is used for both \<^verbatim>\<open>is_live\<close> and
  \<^verbatim>\<open>has_ended\<close> of that auction.
\<close>

theorem one_clock_reading_per_auction:
  assumes "k < length (list_auctions clock status_arg limit db)"
  shows "is_live (list_auctions clock status_arg limit db ! k) =
           (Auction.start_time (doc (list_auctions clock status_arg limit db ! k)) \<le> clock k
            \<and> clock k \<le> Auction.end_time (doc (list_auctions clock status_arg limit db ! k)))
       \<and> has_ended (list_auctions clock status_arg limit db ! k) =
           (clock k > Auction.end_time (doc (list_auctions clock status_arg limit db ! k)))"
proof -
  from assms have "k < length (get_documents (auction_coll db)
         (case status_arg of None \<Rightarrow> None | Some s \<Rightarrow> if s \<noteq> [] then Some s else None) limit)"
    by (simp add: list_auctions_def Let_def length_list_loop)
  from nth_list_loop [OF this, of clock 0] show ?thesis
    by (simp add: list_auctions_def Let_def)
qed

theorem one_clock_reading_per_auction_witness:
  "1 < length (list_auctions (\<lambda>k. 500 + 1000 * int k) None 20 example_db2)
   \<and> \<not> is_live (list_auctions (\<lambda>k. 500 + 1000 * int k) None 20 example_db2 ! 1)
   \<and> has_ended (list_auctions (\<lambda>k. 500 + 1000 * int k) None 20 example_db2 ! 1)"
proof -
  have l: "1 < length (list_auctions (\<lambda>k. 500 + 1000 * int k) None 20 example_db2)"
    by (simp add: list_auctions_def get_documents_def example_db2_def Let_def)
  have d: "doc (list_auctions (\<lambda>k. 500 + 1000 * int k) None 20 example_db2 ! 1) = example_auction"
    by (simp add: list_auctions_def get_documents_def example_db2_def Let_def)
  from one_clock_reading_per_auction [OF l] d l show ?thesis
    by (simp add: example_auction_def)
qed




end
